theory Spec2Isabelle
  imports Main "HOL-Library.Sublist"
begin

section \<open>Self-Hosting Hub API: data model\<close>

text \<open>
  The program is \<^verbatim>\<open>src/app/main.py\<close>: six HTTP handlers over three collections of a
  document store (\<^verbatim>\<open>db.guides\<close>, \<^verbatim>\<open>db.categories\<close>, \<^verbatim>\<open>db.subscribers\<close>).
  A collection is the list of its documents in the store's natural order. Documents are
  typed after the Pydantic classes of the source; a stored guide carries in addition the
  store's \<^verbatim>\<open>_id\<close> and the undeclared, optional key \<^verbatim>\<open>category_id\<close> that
  \<^verbatim>\<open>get_categories\<close> filters on. A \<^verbatim>\<open>datetime\<close> is a count of clock ticks. Python
  integers are \<^typ>\<open>int\<close>.
\<close>

type_synonym datetime = int

text \<open>\<^verbatim>\<open>bson.ObjectId\<close>, given by its hexadecimal form; \<^verbatim>\<open>str(oid)\<close> reads it.\<close>

datatype ObjectId = ObjectId string

fun str :: "ObjectId \<Rightarrow> string" where
  "str (ObjectId h) = h"

record Tag =
  name :: string
  color :: string

record GuideBase =
  title :: string
  description :: string
  content :: "string option"
  icon :: string
  color :: string
  tags :: "Tag list"
  featured :: bool

record Guide = GuideBase +
  id :: string
  created_at :: datetime
  updated_at :: datetime

record CategoryBase =
  name :: string
  description :: string
  icon :: string
  color :: string

record Category = CategoryBase +
  id :: string
  guide_count :: int

record Stats =
  guides :: int
  categories :: int
  technologies :: int

text \<open>The documents as the store holds them (\<^verbatim>\<open>doc_id\<close> is the key \<^verbatim>\<open>_id\<close>).\<close>

record guide_doc = GuideBase +
  doc_id :: ObjectId
  created_at :: datetime
  updated_at :: datetime
  category_id :: "string option"

record category_doc = CategoryBase +
  doc_id :: ObjectId

text \<open>The dictionary \<^verbatim>\<open>subscriber\<close> built by the handler, and the stored document.\<close>

record subscriber =
  email :: string
  subscribed_at :: datetime

record subscriber_doc = subscriber +
  doc_id :: ObjectId

record db =
  guides :: "guide_doc list"
  categories :: "category_doc list"
  subscribers :: "subscriber_doc list"

section \<open>Document store adapter\<close>

text \<open>
  The operations of a collection that the handlers call. A filter document
  \<^verbatim>\<open>{"k": v}\<close> is the predicate it denotes; \<^verbatim>\<open>{}\<close> is the predicate that holds of
  every document.
\<close>

definition count_documents :: "('d \<Rightarrow> bool) \<Rightarrow> 'd list \<Rightarrow> int" where
  "count_documents flt coll = int (length (filter flt coll))"

definition find_one :: "('d \<Rightarrow> bool) \<Rightarrow> 'd list \<Rightarrow> 'd option" where
  "find_one flt coll = List.find flt coll"

text \<open>
  The aggregation stages of \<^verbatim>\<open>get_unique_technologies_count\<close>.
  \<^verbatim>\<open>{"$unwind": "$tags"}\<close> emits one document per element of a guide's tag list (none
  for an empty list); \<^verbatim>\<open>{"$group": {"_id": "$tags.name"}}\<close> emits one document per
  distinct tag name; \<^verbatim>\<open>{"$count": "count"}\<close> emits one document holding the number of its
  input documents, and no document at all when it has no input.
\<close>

definition unwind_tags :: "guide_doc list \<Rightarrow> (guide_doc \<times> Tag) list" where
  "unwind_tags coll = concat (map (\<lambda>g. map (\<lambda>t. (g, t)) (tags g)) coll)"

definition group_tags_name :: "(guide_doc \<times> Tag) list \<Rightarrow> string list" where
  "group_tags_name docs = remdups (map (\<lambda>(g, t). Tag.name t) docs)"

definition count_stage :: "'a list \<Rightarrow> int list" where
  "count_stage docs = (if docs = [] then [] else [int (length docs)])"

definition to_list :: "nat \<Rightarrow> 'a list \<Rightarrow> 'a list" where
  "to_list n cursor = take n cursor"

section \<open>Helper functions and handlers\<close>

text \<open>
  Every handler takes the store and returns its result with the store after the call,
  so that what a handler leaves unchanged is a statement about the second component.
\<close>

definition get_guide_count :: "db \<Rightarrow> int \<times> db" where
  "get_guide_count s = (count_documents (\<lambda>_. True) (db.guides s), s)"

definition get_category_count :: "db \<Rightarrow> int \<times> db" where
  "get_category_count s = (count_documents (\<lambda>_. True) (db.categories s), s)"

definition get_unique_technologies_count :: "db \<Rightarrow> int \<times> db" where
  "get_unique_technologies_count s =
     (let result = to_list 1 (count_stage (group_tags_name (unwind_tags (db.guides s))))
      in (case result of [] \<Rightarrow> 0 | c # _ \<Rightarrow> c, s))"

definition get_stats :: "db \<Rightarrow> Stats \<times> db" where
  "get_stats s0 =
     (let (g, s1) = get_guide_count s0;
          (c, s2) = get_category_count s1;
          (t, s3) = get_unique_technologies_count s2
      in (\<lparr>Stats.guides = g, categories = c, technologies = t\<rparr>, s3))"

text \<open>
  What a request can fail with: an \<^verbatim>\<open>HTTPException\<close> raised by a handler (status code
  and detail), or the framework's rejection of a parameter that does not validate against
  its declared type (answered with status 422 before the handler runs).
\<close>

datatype http_error = HTTPException int string | RequestValidationError

fun error_status :: "http_error \<Rightarrow> int" where
  "error_status (HTTPException code detail) = code"
| "error_status RequestValidationError = 422"

definition HTTP_201_CREATED :: int where
  "HTTP_201_CREATED = 201"

definition HTTP_400_BAD_REQUEST :: int where
  "HTTP_400_BAD_REQUEST = 400"

definition HTTP_404_NOT_FOUND :: int where
  "HTTP_404_NOT_FOUND = 404"

definition HTTP_500_INTERNAL_SERVER_ERROR :: int where
  "HTTP_500_INTERNAL_SERVER_ERROR = 500"

text \<open>
  \<^verbatim>\<open>{**guide, "id": str(guide["_id"])}\<close> serialised through \<^verbatim>\<open>response_model=Guide\<close>:
  the fields of \<^verbatim>\<open>Guide\<close> are kept, the other keys are dropped.
\<close>

definition to_Guide :: "guide_doc \<Rightarrow> Guide" where
  "to_Guide guide =
     \<lparr>title = title guide, GuideBase.description = GuideBase.description guide,
      content = content guide, GuideBase.icon = GuideBase.icon guide,
      GuideBase.color = GuideBase.color guide,
      tags = tags guide, featured = featured guide,
      Guide.id = str (guide_doc.doc_id guide),
      Guide.created_at = guide_doc.created_at guide,
      Guide.updated_at = guide_doc.updated_at guide\<rparr>"

definition get_featured_guide :: "db \<Rightarrow> (http_error + Guide) \<times> db" where
  "get_featured_guide s =
     (case find_one (\<lambda>g. featured g = True) (db.guides s) of
        None \<Rightarrow> (Inl (HTTPException HTTP_404_NOT_FOUND ''No featured guide found''), s)
      | Some guide \<Rightarrow> (Inr (to_Guide guide), s))"

text \<open>
  \<^verbatim>\<open>get_categories\<close>: the loop over the cursor \<^verbatim>\<open>db.categories.find()\<close>, one
  \<^verbatim>\<open>count_documents\<close> on the guides per category, the result appended to the list
  \<^verbatim>\<open>categories\<close> (\<open>acc\<close>).
\<close>

definition to_Category :: "category_doc \<Rightarrow> int \<Rightarrow> Category" where
  "to_Category category n =
     \<lparr>CategoryBase.name = CategoryBase.name category,
      CategoryBase.description = CategoryBase.description category,
      CategoryBase.icon = CategoryBase.icon category,
      CategoryBase.color = CategoryBase.color category,
      Category.id = str (category_doc.doc_id category), guide_count = n\<rparr>"

fun get_categories_loop :: "category_doc list \<Rightarrow> Category list \<Rightarrow> db \<Rightarrow> Category list \<times> db" where
  "get_categories_loop [] acc s = (acc, s)"
| "get_categories_loop (category # cursor) acc s =
     (let (n, s') =
            (count_documents (\<lambda>g. category_id g = Some (str (category_doc.doc_id category)))
               (db.guides s), s)
      in get_categories_loop cursor (acc @ [to_Category category n]) s')"

definition get_categories :: "db \<Rightarrow> Category list \<times> db" where
  "get_categories s = get_categories_loop (db.categories s) [] s"

text \<open>
  \<^verbatim>\<open>get_latest_guides\<close>: the cursor \<^verbatim>\<open>db.guides.find().sort("created_at", -1).limit(limit)\<close>.
  The sort is descending on \<^verbatim>\<open>created_at\<close>. The driver's \<^verbatim>\<open>limit\<close> sends a limit of
  \<^verbatim>\<open>abs(limit)\<close> documents when \<^verbatim>\<open>limit\<close> is not 0, and sends none when it is 0: a limit
  of 0 is equivalent to no limit.
\<close>

definition sort_created_at_desc :: "guide_doc list \<Rightarrow> guide_doc list" where
  "sort_created_at_desc coll = sort_key (\<lambda>g. - guide_doc.created_at g) coll"

definition limit :: "int \<Rightarrow> 'd list \<Rightarrow> 'd list" where
  "limit n cursor = (if n = 0 then cursor else take (nat \<bar>n\<bar>) cursor)"

fun get_latest_guides_loop :: "guide_doc list \<Rightarrow> Guide list \<Rightarrow> Guide list" where
  "get_latest_guides_loop [] acc = acc"
| "get_latest_guides_loop (guide # cursor) acc =
     get_latest_guides_loop cursor (acc @ [to_Guide guide])"

definition get_latest_guides :: "int \<Rightarrow> db \<Rightarrow> Guide list \<times> db" where
  "get_latest_guides lim s =
     (get_latest_guides_loop (limit lim (sort_created_at_desc (db.guides s))) [], s)"

text \<open>The route \<^verbatim>\<open>GET /guides/latest\<close>: the query parameter \<^verbatim>\<open>limit: int = 2\<close>.\<close>

definition guides_latest :: "int option \<Rightarrow> db \<Rightarrow> Guide list \<times> db" where
  "guides_latest query_limit s =
     get_latest_guides (case query_limit of None \<Rightarrow> 2 | Some n \<Rightarrow> n) s"

text \<open>
  \<^verbatim>\<open>insert_one\<close>: the result object carries \<^verbatim>\<open>inserted_id\<close>. The identifier the store
  reports is an input of the model (\<open>None\<close> when it reports none, which the handler tests
  with \<^verbatim>\<open>if not result.inserted_id\<close>); the document is written under the reported
  identifier.
\<close>

record InsertOneResult =
  inserted_id :: "ObjectId option"

definition insert_one ::
  "subscriber \<Rightarrow> ObjectId option \<Rightarrow> subscriber_doc list \<Rightarrow> InsertOneResult \<times> subscriber_doc list" where
  "insert_one doc reported coll =
     (case reported of
        None \<Rightarrow> (\<lparr>inserted_id = None\<rparr>, coll)
      | Some oid \<Rightarrow>
          (\<lparr>inserted_id = Some oid\<rparr>,
           coll @ [\<lparr>email = email doc, subscribed_at = subscribed_at doc,
                    subscriber_doc.doc_id = oid\<rparr>]))"

record response =
  status_code :: int
  body :: "(string \<times> string) list"

text \<open>
  \<^verbatim>\<open>subscribe_to_newsletter\<close>, on an \<^verbatim>\<open>email\<close> that has passed validation. \<open>utcnow\<close> is
  what \<^verbatim>\<open>datetime.utcnow()\<close> returns during this call, \<open>reported\<close> the identifier the
  store reports for the insert.
\<close>

definition subscribe_to_newsletter ::
  "datetime \<Rightarrow> ObjectId option \<Rightarrow> string \<Rightarrow> db \<Rightarrow> (http_error + response) \<times> db" where
  "subscribe_to_newsletter utcnow reported e s =
     (case find_one (\<lambda>d. email d = e) (subscribers s) of
        Some existing \<Rightarrow>
          (Inl (HTTPException HTTP_400_BAD_REQUEST ''Email already subscribed''), s)
      | None \<Rightarrow>
          (let subscriber = \<lparr>email = e, subscribed_at = utcnow\<rparr>;
               (result, coll) = insert_one subscriber reported (subscribers s);
               s' = s\<lparr>subscribers := coll\<rparr>
           in if inserted_id result = None
              then (Inl (HTTPException HTTP_500_INTERNAL_SERVER_ERROR ''Subscription failed''), s')
              else (Inr \<lparr>status_code = HTTP_201_CREATED,
                         body = [(''message'', ''Subscription successful'')]\<rparr>, s')))"

text \<open>
  The route \<^verbatim>\<open>POST /newsletter/subscribe\<close>: the parameter is declared \<^verbatim>\<open>email: EmailStr\<close>,
  so the framework validates the raw string first and calls the handler on the validated
  address only. The validator belongs to a library outside the source; it is a parameter
  here, returning the validated address or \<open>None\<close> for a malformed string.
\<close>

definition newsletter_subscribe ::
  "(string \<Rightarrow> string option) \<Rightarrow> datetime \<Rightarrow> ObjectId option \<Rightarrow> string \<Rightarrow> db
     \<Rightarrow> (http_error + response) \<times> db" where
  "newsletter_subscribe EmailStr utcnow reported raw s =
     (case EmailStr raw of
        None \<Rightarrow> (Inl RequestValidationError, s)
      | Some e \<Rightarrow> subscribe_to_newsletter utcnow reported e s)"

text \<open>
  The class \<^verbatim>\<open>NewsletterSubscriber\<close> declares \<^verbatim>\<open>subscribed_at: datetime = datetime.utcnow()\<close>:
  the default is evaluated once, when the class body runs at process start (\<open>t0\<close>), and
  every instance built without a timestamp shares it.
\<close>

definition NewsletterSubscriber :: "datetime \<Rightarrow> string \<Rightarrow> subscriber" where
  "NewsletterSubscriber t0 e = \<lparr>email = e, subscribed_at = t0\<rparr>"

section \<open>Example documents\<close>

text \<open>
  Concrete documents on which the theorems below are instantiated: two tagged guides
  with six tags and five distinct tag names between them (\<^verbatim>\<open>Docker\<close> occurs in both),
  a guide without tags that refers to a category, and two categories.
\<close>

definition guide_nextcloud :: guide_doc where
  "guide_nextcloud =
     \<lparr>title = ''Nextcloud mit Redis & MySQL'', GuideBase.description = ''Komplettanleitung'',
      content = None, GuideBase.icon = ''fas fa-cloud'', GuideBase.color = ''blue'',
      tags = [\<lparr>Tag.name = ''Docker'', Tag.color = ''blue''\<rparr>,
              \<lparr>Tag.name = ''MySQL'', Tag.color = ''green''\<rparr>,
              \<lparr>Tag.name = ''Redis'', Tag.color = ''red''\<rparr>],
      featured = True,
      guide_doc.doc_id = ObjectId ''65a000000000000000000001'',
      guide_doc.created_at = 1000, guide_doc.updated_at = 1000, category_id = None\<rparr>"

definition guide_fail2ban :: guide_doc where
  "guide_fail2ban =
     \<lparr>title = ''Sicherheit mit Fail2Ban'', GuideBase.description = ''Brute-Force-Schutz'',
      content = None, GuideBase.icon = ''fas fa-shield-alt'', GuideBase.color = ''green'',
      tags = [\<lparr>Tag.name = ''Sicherheit'', Tag.color = ''gray''\<rparr>,
              \<lparr>Tag.name = ''Ubuntu'', Tag.color = ''yellow''\<rparr>,
              \<lparr>Tag.name = ''Docker'', Tag.color = ''blue''\<rparr>],
      featured = False,
      guide_doc.doc_id = ObjectId ''65a000000000000000000002'',
      guide_doc.created_at = 2000, guide_doc.updated_at = 2000, category_id = None\<rparr>"

definition guide_untagged :: guide_doc where
  "guide_untagged =
     \<lparr>title = ''Backups'', GuideBase.description = ''Restic'',
      content = None, GuideBase.icon = ''fas fa-book'', GuideBase.color = ''blue'',
      tags = [], featured = False,
      guide_doc.doc_id = ObjectId ''65a000000000000000000003'',
      guide_doc.created_at = 3000, guide_doc.updated_at = 3000,
      category_id = Some ''65b000000000000000000001''\<rparr>"

definition category_cloud :: category_doc where
  "category_cloud =
     \<lparr>CategoryBase.name = ''Cloud & Storage'', CategoryBase.description = ''Speicher'',
      CategoryBase.icon = ''fas fa-cloud'', CategoryBase.color = ''blue'',
      category_doc.doc_id = ObjectId ''65b000000000000000000001''\<rparr>"

definition category_container :: category_doc where
  "category_container =
     \<lparr>CategoryBase.name = ''Container'', CategoryBase.description = ''Docker'',
      CategoryBase.icon = ''fas fa-boxes'', CategoryBase.color = ''purple'',
      category_doc.doc_id = ObjectId ''65b000000000000000000003''\<rparr>"

definition example_db :: db where
  "example_db =
     \<lparr>db.guides = [guide_nextcloud, guide_fail2ban, guide_untagged],
      db.categories = [category_cloud, category_container],
      subscribers = []\<rparr>"

definition untagged_db :: db where
  "untagged_db = \<lparr>db.guides = [guide_untagged], db.categories = [], subscribers = []\<rparr>"

text \<open>
  A subscriber, the store that holds her, and a stand-in for the address validator: it
  rejects a string without \<^verbatim>\<open>@\<close>, as every validation of the address format does.
\<close>

definition EmailStr_at_sign :: "string \<Rightarrow> string option" where
  "EmailStr_at_sign raw = (if CHR ''@'' \<in> set raw then Some raw else None)"

definition subscriber_alice :: subscriber_doc where
  "subscriber_alice =
     \<lparr>email = ''alice@example.org'', subscribed_at = 4000,
      subscriber_doc.doc_id = ObjectId ''65c000000000000000000001''\<rparr>"

definition subscribed_db :: db where
  "subscribed_db = example_db\<lparr>subscribers := [subscriber_alice]\<rparr>"

section \<open>Statistics\<close>

lemma count_stage_result:
  "(case to_list (Suc 0) (count_stage docs) of [] \<Rightarrow> 0 | c # _ \<Rightarrow> c) = int (length docs)"
  by (simp add: to_list_def count_stage_def)

lemma set_group_tags_name:
  "set (group_tags_name (unwind_tags coll)) = (\<Union>g\<in>set coll. Tag.name ` set (tags g))"
  by (force simp: group_tags_name_def unwind_tags_def)

lemma distinct_group_tags_name: "distinct (group_tags_name docs)"
  by (simp add: group_tags_name_def)

lemma length_group_tags_name:
  "length (group_tags_name (unwind_tags coll)) =
     card (\<Union>g\<in>set coll. Tag.name ` set (tags g))"
proof -
  have "length (group_tags_name (unwind_tags coll)) =
        card (set (group_tags_name (unwind_tags coll)))"
    using distinct_group_tags_name by (simp add: distinct_card)
  then show ?thesis
    by (simp only: set_group_tags_name)
qed

lemma get_unique_technologies_count_eq:
  "get_unique_technologies_count s =
     (int (card (\<Union>g\<in>set (db.guides s). Tag.name ` set (tags g))), s)"
  by (simp add: get_unique_technologies_count_def count_stage_result length_group_tags_name)

lemma get_stats_eq:
  "get_stats s =
     (\<lparr>Stats.guides = int (length (db.guides s)),
       categories = int (length (db.categories s)),
       technologies = int (card (\<Union>g\<in>set (db.guides s). Tag.name ` set (tags g)))\<rparr>, s)"
  by (simp add: get_stats_def get_guide_count_def get_category_count_def
      get_unique_technologies_count_eq count_documents_def)

text \<open>
  C1. For every store, the \<^verbatim>\<open>technologies\<close> field of the value \<^verbatim>\<open>get_stats\<close> returns
  is the number of distinct tag names occurring in the tag lists of the stored guides
  (a name that occurs in several guides is one element of the set, so it is counted
  once); when no guide has a tag, the field is 0.
\<close>

theorem get_stats_technologies:
  "technologies (fst (get_stats s)) =
     int (card (\<Union>g\<in>set (db.guides s). Tag.name ` set (tags g)))
   \<and> ((\<forall>g\<in>set (db.guides s). tags g = []) \<longrightarrow> technologies (fst (get_stats s)) = 0)"
  by (simp add: get_stats_eq)

theorem get_stats_technologies_witness:
  "map tags (db.guides untagged_db) = [[]]
   \<and> technologies (fst (get_stats untagged_db)) = 0
   \<and> technologies (fst (get_stats example_db)) = 5"
  using get_stats_technologies [of untagged_db] get_stats_technologies [of example_db]
  by (simp add: untagged_db_def example_db_def guide_untagged_def guide_nextcloud_def
      guide_fail2ban_def)

section \<open>Featured guide\<close>

lemma find_one_None: "find_one flt coll = None \<longleftrightarrow> (\<forall>d\<in>set coll. \<not> flt d)"
  by (auto simp: find_one_def find_None_iff)

lemma find_one_Some: "find_one flt coll = Some d \<Longrightarrow> d \<in> set coll \<and> flt d"
  by (auto simp: find_one_def find_Some_iff)

lemma featured_to_Guide: "featured (to_Guide g) = featured g"
  by (simp add: to_Guide_def)

text \<open>
  C4. For every store, \<^verbatim>\<open>get_featured_guide\<close> fails exactly when no stored guide
  has \<^verbatim>\<open>featured\<close> set; the failure is the \<^verbatim>\<open>HTTPException\<close> with status 404; and
  a guide it returns has \<^verbatim>\<open>featured\<close> set (it is a stored featured guide, serialised).
\<close>

theorem get_featured_guide_404:
  "((\<exists>e. fst (get_featured_guide s) = Inl e) \<longleftrightarrow> (\<forall>g\<in>set (db.guides s). \<not> featured g))
   \<and> (\<forall>e. fst (get_featured_guide s) = Inl e \<longrightarrow>
          e = HTTPException 404 ''No featured guide found'')
   \<and> (\<forall>G. fst (get_featured_guide s) = Inr G \<longrightarrow>
          featured G \<and> (\<exists>g\<in>set (db.guides s). featured g \<and> G = to_Guide g))"
proof (cases "find_one (\<lambda>g. featured g = True) (db.guides s)")
  case None
  then have "\<forall>g\<in>set (db.guides s). \<not> featured g"
    by (simp add: find_one_None)
  with None show ?thesis
    by (simp add: get_featured_guide_def HTTP_404_NOT_FOUND_def)
next
  case (Some g)
  then have "g \<in> set (db.guides s) \<and> featured g"
    using find_one_Some [of "\<lambda>g. featured g = True"] by simp
  with Some show ?thesis
    by (auto simp: get_featured_guide_def featured_to_Guide)
qed

theorem get_featured_guide_404_witness:
  "map featured (db.guides untagged_db) = [False]
   \<and> fst (get_featured_guide untagged_db) = Inl (HTTPException 404 ''No featured guide found'')
   \<and> fst (get_featured_guide example_db) = Inr (to_Guide guide_nextcloud)
   \<and> featured (to_Guide guide_nextcloud)"
  using get_featured_guide_404 [of untagged_db] get_featured_guide_404 [of example_db]
  by (simp add: get_featured_guide_def find_one_def untagged_db_def example_db_def
      guide_untagged_def guide_nextcloud_def guide_fail2ban_def to_Guide_def
      HTTP_404_NOT_FOUND_def)

section \<open>Categories\<close>

lemma get_categories_loop_eq:
  "get_categories_loop cursor acc s =
     (acc @ map (\<lambda>c. to_Category c
        (int (length (filter (\<lambda>g. category_id g = Some (str (category_doc.doc_id c)))
           (db.guides s))))) cursor, s)"
  by (induction cursor arbitrary: acc) (simp_all add: count_documents_def)

lemma get_categories_eq:
  "get_categories s =
     (map (\<lambda>c. to_Category c
        (int (length (filter (\<lambda>g. category_id g = Some (str (category_doc.doc_id c)))
           (db.guides s))))) (db.categories s), s)"
  by (simp add: get_categories_def get_categories_loop_eq)

text \<open>
  C5. For every store and every category \<open>C\<close> that \<^verbatim>\<open>get_categories\<close> returns,
  \<^verbatim>\<open>guide_count\<close> of \<open>C\<close> is the number of stored guides whose \<^verbatim>\<open>category_id\<close>
  equals the \<^verbatim>\<open>id\<close> of \<open>C\<close>, and it is 0 when no guide's \<^verbatim>\<open>category_id\<close> matches.
\<close>

theorem get_categories_guide_count:
  "\<forall>C\<in>set (fst (get_categories s)).
     guide_count C =
       int (length (filter (\<lambda>g. category_id g = Some (Category.id C)) (db.guides s)))
     \<and> ((\<forall>g\<in>set (db.guides s). category_id g \<noteq> Some (Category.id C)) \<longrightarrow> guide_count C = 0)"
  by (auto simp: get_categories_eq to_Category_def filter_empty_conv)

theorem get_categories_guide_count_witness:
  "map (\<lambda>C. (Category.id C, guide_count C)) (fst (get_categories example_db)) =
     [(''65b000000000000000000001'', 1), (''65b000000000000000000003'', 0)]
   \<and> map category_id (db.guides example_db) =
       [None, None, Some ''65b000000000000000000001'']"
  using get_categories_guide_count [of example_db]
  by (simp add: get_categories_def count_documents_def to_Category_def example_db_def
      guide_untagged_def guide_nextcloud_def guide_fail2ban_def category_cloud_def
      category_container_def)

section \<open>Latest guides\<close>

lemma get_latest_guides_loop_eq: "get_latest_guides_loop cursor acc = acc @ map to_Guide cursor"
  by (induction cursor arbitrary: acc) simp_all

lemma get_latest_guides_eq:
  "get_latest_guides lim s = (map to_Guide (limit lim (sort_created_at_desc (db.guides s))), s)"
  by (simp add: get_latest_guides_def get_latest_guides_loop_eq)

lemma created_at_to_Guide: "Guide.created_at (to_Guide g) = guide_doc.created_at g"
  by (simp add: to_Guide_def)

lemma sorted_desc_sort:
  "sorted (map (\<lambda>g. - guide_doc.created_at g) (sort_created_at_desc coll))"
  by (simp add: sort_created_at_desc_def)

lemma sorted_take_map: "sorted (map f xs) \<Longrightarrow> sorted (map f (take n xs))"
  by (simp add: take_map [symmetric] sorted_wrt_take)

lemma sorted_limit: "sorted (map f xs) \<Longrightarrow> sorted (map f (limit n xs))"
  by (simp add: limit_def sorted_take_map)

lemma get_latest_guides_sorted:
  "sorted (map (\<lambda>G. - Guide.created_at G) (fst (get_latest_guides lim s)))"
proof -
  have "sorted (map (\<lambda>g. - guide_doc.created_at g) (limit lim (sort_created_at_desc (db.guides s))))"
    by (rule sorted_limit) (rule sorted_desc_sort)
  then show ?thesis
    by (simp add: get_latest_guides_eq o_def created_at_to_Guide)
qed

lemma get_latest_guides_positive:
  "0 < n \<Longrightarrow> int (length (fst (get_latest_guides n s))) \<le> n"
  by (simp add: get_latest_guides_eq limit_def)

lemma get_latest_guides_zero:
  "fst (get_latest_guides 0 s) = map to_Guide (sort_created_at_desc (db.guides s))"
  by (simp add: get_latest_guides_eq limit_def)

lemma guides_latest_default: "guides_latest None s = get_latest_guides 2 s"
  by (simp add: guides_latest_def)

text \<open>
  C2. The claim: for every non-negative \<open>N\<close>, \<^verbatim>\<open>get_latest_guides(limit=N)\<close> returns at
  most \<open>N\<close> guides, newest first, and none for \<open>N = 0\<close>; the default limit is 2.
  The lemmas above give the order for every limit, the bound for every positive limit
  and the default. At \<open>N = 0\<close> the handler passes 0 to the cursor's \<^verbatim>\<open>limit\<close>, which
  then applies no limit: on the store of the three example guides the call returns all
  three, newest first, where the claim asks for the empty sequence.
\<close>

theorem get_latest_guides_limit_zero:
  "map title (fst (get_latest_guides 0 example_db)) =
     [''Backups'', ''Sicherheit mit Fail2Ban'', ''Nextcloud mit Redis & MySQL'']"
  by (simp add: get_latest_guides_eq limit_def sort_created_at_desc_def example_db_def
      guide_untagged_def guide_nextcloud_def guide_fail2ban_def to_Guide_def)

section \<open>Read operations\<close>

text \<open>
  C9. Each of the four read operations (\<^verbatim>\<open>get_stats\<close>, \<^verbatim>\<open>get_featured_guide\<close>,
  \<^verbatim>\<open>get_categories\<close>, \<^verbatim>\<open>get_latest_guides\<close>) returns the store it was called on:
  the guides, the categories and the subscribers after the call are those before it.
\<close>

theorem read_operations_frame:
  "snd (get_stats s) = s \<and> snd (get_featured_guide s) = s
   \<and> snd (get_categories s) = s \<and> snd (get_latest_guides lim s) = s"
  by (simp add: get_stats_eq get_categories_eq get_latest_guides_eq get_featured_guide_def
      split: option.split)

section \<open>Newsletter\<close>

lemma subscribe_existing:
  "\<exists>d\<in>set (subscribers s). email d = e \<Longrightarrow>
     subscribe_to_newsletter utcnow reported e s =
       (Inl (HTTPException 400 ''Email already subscribed''), s)"
proof -
  assume "\<exists>d\<in>set (subscribers s). email d = e"
  then have "find_one (\<lambda>d. email d = e) (subscribers s) \<noteq> None"
    by (simp add: find_one_None)
  then obtain d where "find_one (\<lambda>d. email d = e) (subscribers s) = Some d"
    by blast
  then show ?thesis
    by (simp add: subscribe_to_newsletter_def HTTP_400_BAD_REQUEST_def)
qed

lemma subscribe_new_reported:
  "\<forall>d\<in>set (subscribers s). email d \<noteq> e \<Longrightarrow>
     subscribe_to_newsletter utcnow (Some oid) e s =
       (Inr \<lparr>status_code = 201, body = [(''message'', ''Subscription successful'')]\<rparr>,
        s\<lparr>subscribers := subscribers s @
             [\<lparr>email = e, subscribed_at = utcnow, subscriber_doc.doc_id = oid\<rparr>]\<rparr>)"
proof -
  assume "\<forall>d\<in>set (subscribers s). email d \<noteq> e"
  then have "find_one (\<lambda>d. email d = e) (subscribers s) = None"
    by (simp add: find_one_None)
  then show ?thesis
    by (simp add: subscribe_to_newsletter_def insert_one_def HTTP_201_CREATED_def)
qed

lemma subscribe_new_unreported:
  "\<forall>d\<in>set (subscribers s). email d \<noteq> e \<Longrightarrow>
     subscribe_to_newsletter utcnow None e s =
       (Inl (HTTPException 500 ''Subscription failed''), s)"
proof -
  assume "\<forall>d\<in>set (subscribers s). email d \<noteq> e"
  then have "find_one (\<lambda>d. email d = e) (subscribers s) = None"
    by (simp add: find_one_None)
  then show ?thesis
    by (simp add: subscribe_to_newsletter_def insert_one_def HTTP_500_INTERNAL_SERVER_ERROR_def)
qed

text \<open>
  C3. For every address \<open>e\<close>: when no subscriber with \<open>e\<close> exists (and the store
  reports the identifier of the insert), \<^verbatim>\<open>subscribe_to_newsletter\<close> succeeds with
  status 201, and the same call on the store it leaves fails with status 400; in general,
  when a subscriber with \<open>e\<close> exists the call fails with status 400 and the detail
  \<^verbatim>\<open>Email already subscribed\<close>, which ends in the claim's words \<^verbatim>\<open>already subscribed\<close>.
\<close>

theorem subscribe_twice:
  "((\<forall>d\<in>set (subscribers s). email d \<noteq> e) \<longrightarrow>
      fst (subscribe_to_newsletter t1 (Some oid) e s) =
        Inr \<lparr>status_code = 201, body = [(''message'', ''Subscription successful'')]\<rparr>
      \<and> fst (subscribe_to_newsletter t2 reported e
                (snd (subscribe_to_newsletter t1 (Some oid) e s))) =
          Inl (HTTPException 400 ''Email already subscribed''))
   \<and> ((\<exists>d\<in>set (subscribers s). email d = e) \<longrightarrow>
        fst (subscribe_to_newsletter t2 reported e s) =
          Inl (HTTPException 400 ''Email already subscribed''))
   \<and> suffix ''already subscribed'' ''Email already subscribed''"
proof (intro conjI impI)
  assume new: "\<forall>d\<in>set (subscribers s). email d \<noteq> e"
  show "fst (subscribe_to_newsletter t1 (Some oid) e s) =
        Inr \<lparr>status_code = 201, body = [(''message'', ''Subscription successful'')]\<rparr>"
    by (simp add: subscribe_new_reported [OF new])
  have "\<exists>d\<in>set (subscribers (snd (subscribe_to_newsletter t1 (Some oid) e s))). email d = e"
    by (simp add: subscribe_new_reported [OF new])
  then show "fst (subscribe_to_newsletter t2 reported e
                (snd (subscribe_to_newsletter t1 (Some oid) e s))) =
          Inl (HTTPException 400 ''Email already subscribed'')"
    by (simp add: subscribe_existing)
next
  assume "\<exists>d\<in>set (subscribers s). email d = e"
  then show "fst (subscribe_to_newsletter t2 reported e s) =
          Inl (HTTPException 400 ''Email already subscribed'')"
    by (simp add: subscribe_existing)
next
  show "suffix ''already subscribed'' ''Email already subscribed''"
    by (simp add: suffix_to_prefix)
qed

theorem subscribe_twice_witness:
  "map email (subscribers example_db) = []
   \<and> fst (subscribe_to_newsletter 4000 (Some (ObjectId ''65c000000000000000000001''))
            ''alice@example.org'' example_db) =
       Inr \<lparr>status_code = 201, body = [(''message'', ''Subscription successful'')]\<rparr>
   \<and> snd (subscribe_to_newsletter 4000 (Some (ObjectId ''65c000000000000000000001''))
            ''alice@example.org'' example_db) = subscribed_db
   \<and> (\<exists>d\<in>set (subscribers subscribed_db). email d = ''alice@example.org'')
   \<and> fst (subscribe_to_newsletter 5000 (Some (ObjectId ''65c000000000000000000002''))
            ''alice@example.org'' subscribed_db) =
       Inl (HTTPException 400 ''Email already subscribed'')"
  using subscribe_twice [of example_db "''alice@example.org''" 4000
      "ObjectId ''65c000000000000000000001''" 5000 "Some (ObjectId ''65c000000000000000000002'')"]
    subscribe_twice [of subscribed_db "''alice@example.org''" 4000
      "ObjectId ''65c000000000000000000001''" 5000 "Some (ObjectId ''65c000000000000000000002'')"]
  by (simp add: subscribe_to_newsletter_def find_one_def insert_one_def example_db_def
      subscribed_db_def subscriber_alice_def HTTP_201_CREATED_def HTTP_400_BAD_REQUEST_def)

text \<open>
  C6. For every successful call, the subscriber document appended to the collection
  carries in \<^verbatim>\<open>subscribed_at\<close> the clock reading \<open>utcnow\<close> of that very call, whatever
  the time \<open>t0\<close> at which the process started: it differs from the default that the class
  \<^verbatim>\<open>NewsletterSubscriber\<close> fixed at \<open>t0\<close> whenever the clock has moved since.
\<close>

theorem subscribe_timestamp:
  "fst (subscribe_to_newsletter utcnow reported e s) = Inr r \<Longrightarrow>
     (\<exists>oid. reported = Some oid
        \<and> subscribers (snd (subscribe_to_newsletter utcnow reported e s)) =
            subscribers s @ [\<lparr>email = e, subscribed_at = utcnow, subscriber_doc.doc_id = oid\<rparr>])
     \<and> subscribed_at (last (subscribers (snd (subscribe_to_newsletter utcnow reported e s)))) =
         utcnow
     \<and> (utcnow \<noteq> t0 \<longrightarrow>
          subscribed_at (last (subscribers (snd (subscribe_to_newsletter utcnow reported e s))))
            \<noteq> subscribed_at (NewsletterSubscriber t0 e))"
proof -
  assume ok: "fst (subscribe_to_newsletter utcnow reported e s) = Inr r"
  have new: "\<forall>d\<in>set (subscribers s). email d \<noteq> e"
  proof (rule ccontr)
    assume "\<not> (\<forall>d\<in>set (subscribers s). email d \<noteq> e)"
    then have "\<exists>d\<in>set (subscribers s). email d = e" by simp
    from subscribe_existing [OF this] ok show False by simp
  qed
  obtain oid where rep: "reported = Some oid"
    using ok subscribe_new_unreported [OF new] by (cases reported) auto
  show ?thesis
    by (simp add: rep subscribe_new_reported [OF new] NewsletterSubscriber_def)
qed

theorem subscribe_timestamp_witness:
  "fst (subscribe_to_newsletter 4000 (Some (ObjectId ''65c000000000000000000001''))
          ''alice@example.org'' example_db) =
     Inr \<lparr>status_code = 201, body = [(''message'', ''Subscription successful'')]\<rparr>
   \<and> map subscribed_at (subscribers (snd (subscribe_to_newsletter 4000
          (Some (ObjectId ''65c000000000000000000001'')) ''alice@example.org'' example_db))) =
       [4000]
   \<and> map subscribed_at (subscribers (snd (subscribe_to_newsletter 5000
          (Some (ObjectId ''65c000000000000000000002'')) ''bob@example.org''
          (snd (subscribe_to_newsletter 4000
             (Some (ObjectId ''65c000000000000000000001'')) ''alice@example.org'' example_db))))) =
       [4000, 5000]
   \<and> (4000::int) \<noteq> 0
   \<and> subscribed_at (NewsletterSubscriber 0 ''alice@example.org'') = 0"
  using subscribe_timestamp [of 4000 "Some (ObjectId ''65c000000000000000000001'')"
      "''alice@example.org''" example_db
      "\<lparr>status_code = 201, body = [(''message'', ''Subscription successful'')]\<rparr>" 0]
  by (simp add: subscribe_to_newsletter_def find_one_def insert_one_def example_db_def
      HTTP_201_CREATED_def NewsletterSubscriber_def)

text \<open>
  C7. For every raw string that the address validation rejects, the route answers with
  the validation error and never calls the handler: the answer is the same on every
  store (nothing was read), and the store, the subscribers in particular, is unchanged.
\<close>

theorem subscribe_malformed:
  "EmailStr raw = None \<Longrightarrow>
     newsletter_subscribe EmailStr utcnow reported raw s = (Inl RequestValidationError, s)
     \<and> fst (newsletter_subscribe EmailStr utcnow reported raw s') =
         fst (newsletter_subscribe EmailStr utcnow reported raw s)
     \<and> subscribers (snd (newsletter_subscribe EmailStr utcnow reported raw s)) = subscribers s"
  by (simp add: newsletter_subscribe_def)

theorem subscribe_malformed_witness:
  "EmailStr_at_sign ''not-an-email'' = None
   \<and> newsletter_subscribe EmailStr_at_sign 4000 (Some (ObjectId ''65c000000000000000000001''))
        ''not-an-email'' example_db = (Inl RequestValidationError, example_db)"
  using subscribe_malformed [of EmailStr_at_sign "''not-an-email''" 4000
      "Some (ObjectId ''65c000000000000000000001'')" example_db example_db]
  by (simp add: EmailStr_at_sign_def)

text \<open>
  C8. For every call that passes the duplicate check (\<^verbatim>\<open>find_one\<close> returns nothing):
  if the insert reports no identifier, the call fails with status 500; if it reports one,
  the call returns status 201 with the JSON body \<^verbatim>\<open>{"message": "Subscription successful"}\<close>.
\<close>

theorem subscribe_insert_report:
  "find_one (\<lambda>d. email d = e) (subscribers s) = None \<Longrightarrow>
     (reported = None \<longrightarrow>
        fst (subscribe_to_newsletter utcnow reported e s) =
          Inl (HTTPException 500 ''Subscription failed''))
     \<and> (\<forall>oid. reported = Some oid \<longrightarrow>
          fst (subscribe_to_newsletter utcnow reported e s) =
            Inr \<lparr>status_code = 201, body = [(''message'', ''Subscription successful'')]\<rparr>)"
  by (simp add: find_one_None subscribe_new_reported subscribe_new_unreported)

theorem subscribe_insert_report_witness:
  "find_one (\<lambda>d. email d = ''alice@example.org'') (subscribers example_db) = None
   \<and> fst (subscribe_to_newsletter 4000 None ''alice@example.org'' example_db) =
       Inl (HTTPException 500 ''Subscription failed'')
   \<and> fst (subscribe_to_newsletter 4000 (Some (ObjectId ''65c000000000000000000001''))
           ''alice@example.org'' example_db) =
       Inr \<lparr>status_code = 201, body = [(''message'', ''Subscription successful'')]\<rparr>"
  using subscribe_insert_report [of "''alice@example.org''" example_db None 4000]
    subscribe_insert_report [of "''alice@example.org''" example_db
      "Some (ObjectId ''65c000000000000000000001'')" 4000]
  by (simp add: find_one_def example_db_def)

text \<open>
  C10. Whenever \<^verbatim>\<open>subscribe_to_newsletter\<close> fails with status 400, the store after
  the call is the store before it (no document was written), and a subscriber with that
  address existed already.
\<close>

theorem subscribe_conflict_frame:
  "fst (subscribe_to_newsletter utcnow reported e s) = Inl (HTTPException 400 detail) \<Longrightarrow>
     snd (subscribe_to_newsletter utcnow reported e s) = s
     \<and> (\<exists>d\<in>set (subscribers s). email d = e)"
proof -
  assume err: "fst (subscribe_to_newsletter utcnow reported e s) = Inl (HTTPException 400 detail)"
  have ex: "\<exists>d\<in>set (subscribers s). email d = e"
  proof (rule ccontr)
    assume "\<not> (\<exists>d\<in>set (subscribers s). email d = e)"
    then have new: "\<forall>d\<in>set (subscribers s). email d \<noteq> e" by simp
    show False
      using err subscribe_new_unreported [OF new] subscribe_new_reported [OF new]
      by (cases reported) auto
  qed
  then show ?thesis
    by (simp add: subscribe_existing)
qed

theorem subscribe_conflict_frame_witness:
  "fst (subscribe_to_newsletter 5000 (Some (ObjectId ''65c000000000000000000002''))
          ''alice@example.org'' subscribed_db) =
     Inl (HTTPException 400 ''Email already subscribed'')
   \<and> snd (subscribe_to_newsletter 5000 (Some (ObjectId ''65c000000000000000000002''))
          ''alice@example.org'' subscribed_db) = subscribed_db"
  using subscribe_conflict_frame [of 5000 "Some (ObjectId ''65c000000000000000000002'')"
      "''alice@example.org''" subscribed_db "''Email already subscribed''"]
  by (simp add: subscribe_to_newsletter_def find_one_def subscribed_db_def example_db_def
      subscriber_alice_def HTTP_400_BAD_REQUEST_def)

end
